theory Spec2Isabelle
  imports Main "HOL-Library.Sublist"
begin

section \<open>Data model of the blog\<close>

text \<open>
  The views of \<^verbatim>\<open>blog/views.py\<close> work on the rows of four tables: users, categories,
  posts and comments. The declarations of the rows (\<^verbatim>\<open>blog/models.py\<close>) are not among
  the sources, so each record below lists the fields that the views and forms read or
  write. A timestamp is an integer (a point on the time line), a primary key a
  natural number. A reference to a user or to a post is kept as the primary key of the
  referenced row; the category of a post is the optional row that
  \<^verbatim>\<open>select_related('category')\<close> loads with it.
\<close>

type_synonym timestamp = int

record category =
  category_id :: nat
  category_slug :: string
  category_title :: string
  category_is_published :: bool

record user =
  user_id :: nat
  username :: string
  is_staff :: bool

text \<open>\<^verbatim>\<open>request.user\<close> is either Django's anonymous user or a row of the user table.\<close>

datatype viewer = AnonymousUser | Authenticated user

record post =
  post_id :: nat
  post_author :: nat
  post_category :: "category option"
  post_location :: "nat option"
  post_title :: string
  post_text :: string
  post_image :: "string option"
  post_pub_date :: timestamp
  post_is_published :: bool

text \<open>
  The field \<open>comment_is_published\<close> is the attribute that \<^verbatim>\<open>edit_comment\<close> assigns
  (\<^verbatim>\<open>comment.is_published = True\<close>).
\<close>

record comment =
  comment_id :: nat
  comment_post :: nat
  comment_author :: nat
  comment_text :: string
  comment_created_at :: timestamp
  comment_is_published :: bool

text \<open>
  Beside the four tables the store keeps \<open>post_seq\<close>, the last key that the sequence of
  the post table has handed out: the database gives a new row the next value of the
  sequence and never hands a value out twice, also after the row is deleted.
\<close>

record store =
  users :: "user list"
  categories :: "category list"
  posts :: "post list"
  comments :: "comment list"
  post_seq :: nat

text \<open>
  A request carries its method, its user and the \<^verbatim>\<open>page\<close> parameter of the query
  string. The clock (\<^verbatim>\<open>timezone.now()\<close>) is an input of every view that reads it, one
  argument for each reading.
\<close>

record request =
  req_method :: string
  req_user :: viewer
  req_page :: "string option"

datatype error = Http404 | MultipleObjectsReturned | IntegrityError

text \<open>
  \<^verbatim>\<open>Paginator(queryset, items_per_page).get_page(page_number)\<close> is Django's; the page
  object of the model is the call itself: the whole sequence handed to the paginator,
  the page size and the requested page.
\<close>

record 'a page =
  object_list :: "'a list"
  per_page :: nat
  page_number :: "string option"

datatype route = PostDetailRoute nat | ProfileRoute string | LoginRoute

datatype render_context =
    IndexContext "post page"
  | DetailContext post "comment list" timestamp
  | CategoryContext category "post page"
  | ProfileContext user "post page"
  | FormContext
  | PostContext post
  | CommentFormContext comment nat
  | CommentContext comment nat

datatype response =
    Render string render_context
  | Redirect route
  | HttpResponseForbidden

section \<open>Queries\<close>

definition PAGE :: nat where
  "PAGE = 10"

text \<open>
  \<^verbatim>\<open>filter_posts\<close>: the rows that satisfy the keyword conditions of the call, newest
  \<^verbatim>\<open>pub_date\<close> first. The database leaves the order of rows with equal \<^verbatim>\<open>pub_date\<close>
  open; the model keeps them in table order.
\<close>

definition filter_posts :: "(post \<Rightarrow> bool) \<Rightarrow> store \<Rightarrow> post list" where
  "filter_posts kwargs st = sort_key (\<lambda>p. - post_pub_date p) (filter kwargs (posts st))"

definition paginated_view :: "request \<Rightarrow> 'a list \<Rightarrow> nat \<Rightarrow> 'a page" where
  "paginated_view request queryset items_per_page =
     \<lparr>object_list = queryset, per_page = items_per_page, page_number = req_page request\<rparr>"

text \<open>
  \<^verbatim>\<open>get_object_or_404(Model, **kwargs)\<close>: Django's \<^verbatim>\<open>get\<close> raises \<^verbatim>\<open>DoesNotExist\<close>,
  turned into \<^verbatim>\<open>Http404\<close>, when no row matches, and \<^verbatim>\<open>MultipleObjectsReturned\<close> when
  more than one does.
\<close>

definition get_object_or_404 :: "'a list \<Rightarrow> ('a \<Rightarrow> bool) \<Rightarrow> error + 'a" where
  "get_object_or_404 rows kwargs =
     (case filter kwargs rows of
        [] \<Rightarrow> Inl Http404
      | [x] \<Rightarrow> Inr x
      | _ \<Rightarrow> Inl MultipleObjectsReturned)"

section \<open>Request user\<close>

fun is_authenticated :: "viewer \<Rightarrow> bool" where
  "is_authenticated AnonymousUser = False"
| "is_authenticated (Authenticated u) = True"

text \<open>\<^verbatim>\<open>request.user.is_staff\<close>; the anonymous user's attribute is \<^verbatim>\<open>False\<close>.\<close>

fun viewer_is_staff :: "viewer \<Rightarrow> bool" where
  "viewer_is_staff AnonymousUser = False"
| "viewer_is_staff (Authenticated u) = is_staff u"

text \<open>
  \<^verbatim>\<open>post.author == request.user\<close>: two model instances are equal when their primary
  keys are; the anonymous user is not a model instance and equals no author.
\<close>

fun author_is :: "nat \<Rightarrow> viewer \<Rightarrow> bool" where
  "author_is a AnonymousUser = False"
| "author_is a (Authenticated u) = (a = user_id u)"

section \<open>Visibility\<close>

text \<open>
  The branch of \<^verbatim>\<open>post_detail\<close> (lines 52 to 60) that sets the local \<^verbatim>\<open>can_view\<close>.
\<close>

definition can_view :: "post \<Rightarrow> viewer \<Rightarrow> timestamp \<Rightarrow> bool" where
  "can_view post u now =
     (if post_is_published post \<and> post_pub_date post \<le> now \<and>
         (case post_category post of None \<Rightarrow> True | Some c \<Rightarrow> category_is_published c)
      then True
      else if is_authenticated u \<and> author_is (post_author post) u then True
      else if is_authenticated u \<and> viewer_is_staff u then True
      else False)"

text \<open>
  The branch inside the loop of \<^verbatim>\<open>category_posts\<close> (lines 95 to 107) that sets the
  local \<^verbatim>\<open>can_view_post\<close>.
\<close>

definition can_view_post :: "post \<Rightarrow> viewer \<Rightarrow> timestamp \<Rightarrow> bool" where
  "can_view_post post u now =
     (if post_is_published post \<and> post_pub_date post \<le> now \<and>
         (case post_category post of None \<Rightarrow> True | Some c \<Rightarrow> category_is_published c)
      then True
      else if is_authenticated u \<and> author_is (post_author post) u then True
      else if is_authenticated u \<and> viewer_is_staff u then True
      else False)"

text \<open>
  The loop of \<^verbatim>\<open>category_posts\<close> (lines 93 to 110): \<open>visible\<close> is the list
  \<^verbatim>\<open>visible_posts\<close> built so far, a post that passes is appended to it.
\<close>

fun visible_loop :: "viewer \<Rightarrow> timestamp \<Rightarrow> post list \<Rightarrow> post list \<Rightarrow> post list" where
  "visible_loop u now [] visible = visible"
| "visible_loop u now (post # rest) visible =
     visible_loop u now rest
       (if can_view_post post u now then visible @ [post] else visible)"

section \<open>Read-only views\<close>

text \<open>\<^verbatim>\<open>index\<close>: the keyword \<^verbatim>\<open>category__is_published=True\<close> joins the category table, so
  a post without category does not match.\<close>

definition index :: "store \<Rightarrow> request \<Rightarrow> timestamp \<Rightarrow> response" where
  "index st request now =
     (let all_posts = filter_posts
            (\<lambda>p. post_is_published p \<and>
                 (case post_category p of None \<Rightarrow> False | Some c \<Rightarrow> category_is_published c) \<and>
                 post_pub_date p \<le> now) st;
          page_obj = paginated_view request all_posts PAGE
      in Render ''blog/index.html'' (IndexContext page_obj))"

text \<open>
  \<^verbatim>\<open>post_detail\<close>: \<^verbatim>\<open>post.comments.all()\<close> are the comment rows that refer to the post.
  The view asks for no order; the rows come in table order.
\<close>

definition post_detail :: "store \<Rightarrow> request \<Rightarrow> nat \<Rightarrow> timestamp \<Rightarrow> error + response" where
  "post_detail st request pid now =
     (case get_object_or_404 (posts st) (\<lambda>p. post_id p = pid) of
        Inl e \<Rightarrow> Inl e
      | Inr post \<Rightarrow>
          if \<not> can_view post (req_user request) now then Inl Http404
          else
            let comments = filter (\<lambda>c. comment_post c = post_id post) (comments st)
            in Inr (Render ''blog/detail.html'' (DetailContext post comments now)))"

text \<open>
  \<^verbatim>\<open>category_posts\<close> reads the clock twice: \<open>now\<close> is the reading of line 86, used by the
  loop, \<open>now2\<close> the reading of line 89, used by the query.
\<close>

definition category_posts ::
  "store \<Rightarrow> request \<Rightarrow> string \<Rightarrow> timestamp \<Rightarrow> timestamp \<Rightarrow> error + response" where
  "category_posts st request slug now now2 =
     (case get_object_or_404 (categories st)
             (\<lambda>c. category_slug c = slug \<and> category_is_published c) of
        Inl e \<Rightarrow> Inl e
      | Inr category \<Rightarrow>
          let all_category_posts = filter_posts
                (\<lambda>p. post_is_published p \<and> post_pub_date p \<le> now2 \<and>
                     map_option category_id (post_category p) = Some (category_id category)) st;
              visible_posts = visible_loop (req_user request) now all_category_posts [];
              page_obj = paginated_view request visible_posts PAGE
          in Inr (Render ''blog/category.html'' (CategoryContext category page_obj)))"

text \<open>\<^verbatim>\<open>profile_view\<close>: the query has no \<^verbatim>\<open>order_by\<close>; the rows come in table order.\<close>

definition profile_view :: "store \<Rightarrow> request \<Rightarrow> string \<Rightarrow> error + response" where
  "profile_view st request name =
     (case get_object_or_404 (users st) (\<lambda>u. username u = name) of
        Inl e \<Rightarrow> Inl e
      | Inr user_obj \<Rightarrow>
          let user_posts = filter (\<lambda>p. post_author p = user_id user_obj) (posts st);
              page_obj = paginated_view request user_posts PAGE
          in Inr (Render ''blog/profile.html'' (ProfileContext user_obj page_obj)))"

section \<open>Forms and saving\<close>

text \<open>
  Form validation is Django's. A view of the model receives the outcome of
  \<^verbatim>\<open>form.is_valid()\<close> as an optional value: \<open>None\<close> when the form is not valid, the
  cleaned fields otherwise. \<^verbatim>\<open>PostForm\<close> has the seven fields below, \<^verbatim>\<open>CommentForm\<close>
  the text alone.
\<close>

record post_form =
  form_category :: "category option"
  form_location :: "nat option"
  form_title :: string
  form_text :: string
  form_image :: "string option"
  form_pub_date :: "timestamp option"
  form_is_published :: bool

text \<open>
  A post instance in memory, before it is saved: a new one has no primary key and no
  author yet, and its \<^verbatim>\<open>pub_date\<close> is \<^verbatim>\<open>None\<close> when the form left it empty.
\<close>

record post_instance =
  inst_pk :: "nat option"
  inst_author :: "nat option"
  inst_category :: "category option"
  inst_location :: "nat option"
  inst_title :: string
  inst_text :: string
  inst_image :: "string option"
  inst_pub_date :: "timestamp option"
  inst_is_published :: bool

definition instance_of :: "post \<Rightarrow> post_instance" where
  "instance_of p =
     \<lparr>inst_pk = Some (post_id p), inst_author = Some (post_author p),
      inst_category = post_category p, inst_location = post_location p,
      inst_title = post_title p, inst_text = post_text p, inst_image = post_image p,
      inst_pub_date = Some (post_pub_date p), inst_is_published = post_is_published p\<rparr>"

text \<open>\<^verbatim>\<open>PostForm(...).save(commit=False)\<close> with no instance: a new post from the form.\<close>

definition new_instance :: "post_form \<Rightarrow> post_instance" where
  "new_instance f =
     \<lparr>inst_pk = None, inst_author = None,
      inst_category = form_category f, inst_location = form_location f,
      inst_title = form_title f, inst_text = form_text f, inst_image = form_image f,
      inst_pub_date = form_pub_date f, inst_is_published = form_is_published f\<rparr>"

text \<open>\<^verbatim>\<open>PostForm(..., instance=post)\<close>: the form's fields are written to the instance.\<close>

definition construct_instance :: "post_form \<Rightarrow> post_instance \<Rightarrow> post_instance" where
  "construct_instance f i =
     i\<lparr>inst_category := form_category f, inst_location := form_location f,
       inst_title := form_title f, inst_text := form_text f, inst_image := form_image f,
       inst_pub_date := form_pub_date f, inst_is_published := form_is_published f\<rparr>"

text \<open>
  The key of a new row is the value after the last one that the sequence handed out. In
  a store whose keys all came from the sequence no key of the table is beyond
  \<open>post_seq\<close>; taking the maximum with the keys of the table keeps the new key unused
  in every store.
\<close>

definition fresh_id :: "nat \<Rightarrow> nat list \<Rightarrow> nat" where
  "fresh_id seq ids = Suc (fold max ids seq)"

definition post_row :: "nat \<Rightarrow> nat \<Rightarrow> timestamp \<Rightarrow> post_instance \<Rightarrow> post" where
  "post_row k a d i =
     \<lparr>post_id = k, post_author = a, post_category = inst_category i,
      post_location = inst_location i, post_title = inst_title i,
      post_text = inst_text i, post_image = inst_image i,
      post_pub_date = d, post_is_published = inst_is_published i\<rparr>"

text \<open>
  \<^verbatim>\<open>post.save()\<close>: a row has an author and a \<^verbatim>\<open>pub_date\<close>, so an instance that lacks
  one is refused; an instance without primary key is inserted under the next key of the
  sequence; one with a primary key replaces the rows of that key, and is inserted when
  there is none.
\<close>

definition save_post :: "store \<Rightarrow> post_instance \<Rightarrow> error + post \<times> store" where
  "save_post st i =
     (case (inst_author i, inst_pub_date i) of
        (Some a, Some d) \<Rightarrow>
          (case inst_pk i of
             None \<Rightarrow>
               let k = fresh_id (post_seq st) (map post_id (posts st));
                   row = post_row k a d i
               in Inr (row, st\<lparr>posts := posts st @ [row], post_seq := k\<rparr>)
           | Some k \<Rightarrow>
               let row = post_row k a d i
               in if list_ex (\<lambda>p. post_id p = k) (posts st)
                  then Inr (row, st\<lparr>posts := map (\<lambda>p. if post_id p = k then row else p) (posts st)\<rparr>)
                  else Inr (row, st\<lparr>posts := posts st @ [row]\<rparr>))
      | _ \<Rightarrow> Inl IntegrityError)"

text \<open>\<^verbatim>\<open>comment.save()\<close> of a comment read from the table.\<close>

definition save_comment :: "store \<Rightarrow> comment \<Rightarrow> store" where
  "save_comment st c =
     (if list_ex (\<lambda>x. comment_id x = comment_id c) (comments st)
      then st\<lparr>comments := map (\<lambda>x. if comment_id x = comment_id c then c else x) (comments st)\<rparr>
      else st\<lparr>comments := comments st @ [c]\<rparr>)"

text \<open>
  \<^verbatim>\<open>post.delete()\<close> removes the rows of the post's key. What happens to the comments
  of a deleted post is the \<^verbatim>\<open>on_delete\<close> rule of the comment's reference to its post,
  declared in \<^verbatim>\<open>models.py\<close>; the rule is a parameter: the comment table after the post
  with the given key is gone.
\<close>

definition delete_post_row ::
  "(nat \<Rightarrow> comment list \<Rightarrow> comment list) \<Rightarrow> store \<Rightarrow> post \<Rightarrow> store" where
  "delete_post_row on_delete st post =
     st\<lparr>posts := filter (\<lambda>p. post_id p \<noteq> post_id post) (posts st),
        comments := on_delete (post_id post) (comments st)\<rparr>"

definition delete_comment_row :: "store \<Rightarrow> comment \<Rightarrow> store" where
  "delete_comment_row st c =
     st\<lparr>comments := filter (\<lambda>x. comment_id x \<noteq> comment_id c) (comments st)\<rparr>"

section \<open>Views that write\<close>

text \<open>
  Every view below is decorated with \<^verbatim>\<open>@login_required\<close>: an anonymous request is
  redirected to the login page and the view's body does not run. A view returns its
  response together with the store it leaves.
\<close>

definition create_post ::
  "store \<Rightarrow> request \<Rightarrow> post_form option \<Rightarrow> timestamp \<Rightarrow> error + response \<times> store" where
  "create_post st request form now =
     (case req_user request of
        AnonymousUser \<Rightarrow> Inr (Redirect LoginRoute, st)
      | Authenticated u \<Rightarrow>
          if req_method request = ''POST'' then
            (case form of
               None \<Rightarrow> Inr (Render ''blog/create.html'' FormContext, st)
             | Some f \<Rightarrow>
                 let post0 = new_instance f;
                     post1 = post0\<lparr>inst_author := Some (user_id u)\<rparr>;
                     post2 = post1\<lparr>inst_is_published := True\<rparr>;
                     post3 = (if inst_pub_date post2 = None
                              then post2\<lparr>inst_pub_date := Some now\<rparr> else post2)
                 in (case save_post st post3 of
                       Inl e \<Rightarrow> Inl e
                     | Inr (saved, st') \<Rightarrow> Inr (Redirect (ProfileRoute (username u)), st')))
          else Inr (Render ''blog/create.html'' FormContext, st))"

definition edit_post ::
  "store \<Rightarrow> request \<Rightarrow> nat \<Rightarrow> post_form option \<Rightarrow> error + response \<times> store" where
  "edit_post st request pid form =
     (case req_user request of
        AnonymousUser \<Rightarrow> Inr (Redirect LoginRoute, st)
      | Authenticated u \<Rightarrow>
          (case get_object_or_404 (posts st) (\<lambda>p. post_id p = pid) of
             Inl e \<Rightarrow> Inl e
           | Inr post \<Rightarrow>
               if post_author post \<noteq> user_id u
               then Inr (Redirect (PostDetailRoute (post_id post)), st)
               else if req_method request = ''POST'' then
                 (case form of
                    None \<Rightarrow> Inr (Render ''blog/create.html'' FormContext, st)
                  | Some f \<Rightarrow>
                      (case save_post st (construct_instance f (instance_of post)) of
                         Inl e \<Rightarrow> Inl e
                       | Inr (saved_post, st') \<Rightarrow>
                           Inr (Redirect (PostDetailRoute (post_id saved_post)), st')))
               else Inr (Render ''blog/create.html'' FormContext, st)))"

definition delete_post ::
  "(nat \<Rightarrow> comment list \<Rightarrow> comment list) \<Rightarrow> store \<Rightarrow> request \<Rightarrow> nat \<Rightarrow>
     error + response \<times> store" where
  "delete_post on_delete st request pid =
     (case req_user request of
        AnonymousUser \<Rightarrow> Inr (Redirect LoginRoute, st)
      | Authenticated u \<Rightarrow>
          (case get_object_or_404 (posts st) (\<lambda>p. post_id p = pid) of
             Inl e \<Rightarrow> Inl e
           | Inr post \<Rightarrow>
               if post_author post \<noteq> user_id u
               then Inr (Redirect (PostDetailRoute (post_id post)), st)
               else if req_method request = ''POST''
               then Inr (Redirect (ProfileRoute (username u)),
                         delete_post_row on_delete st post)
               else Inr (Render ''blog/create.html'' (PostContext post), st)))"

text \<open>
  The comment views look the comment up by its key and the key of its post
  (\<^verbatim>\<open>pk=comment_id, post__pk=post_id\<close>). The optional string is the cleaned text of a
  valid \<^verbatim>\<open>CommentForm\<close>.
\<close>

definition edit_comment ::
  "store \<Rightarrow> request \<Rightarrow> nat \<Rightarrow> nat \<Rightarrow> string option \<Rightarrow> error + response \<times> store" where
  "edit_comment st request pid cid form =
     (case req_user request of
        AnonymousUser \<Rightarrow> Inr (Redirect LoginRoute, st)
      | Authenticated u \<Rightarrow>
          (case get_object_or_404 (comments st)
                  (\<lambda>c. comment_id c = cid \<and> comment_post c = pid) of
             Inl e \<Rightarrow> Inl e
           | Inr comment \<Rightarrow>
               if comment_author comment \<noteq> user_id u
               then Inr (HttpResponseForbidden, st)
               else if req_method request = ''POST'' then
                 (case form of
                    None \<Rightarrow>
                      Inr (Render ''blog/comment.html''
                             (CommentFormContext comment (comment_post comment)), st)
                  | Some t \<Rightarrow>
                      let comment1 = comment\<lparr>comment_text := t\<rparr>;
                          comment2 = comment1\<lparr>comment_is_published := True\<rparr>
                      in Inr (Redirect (PostDetailRoute pid), save_comment st comment2))
               else Inr (Render ''blog/comment.html''
                           (CommentFormContext comment (comment_post comment)), st)))"

definition delete_comment ::
  "store \<Rightarrow> request \<Rightarrow> nat \<Rightarrow> nat \<Rightarrow> error + response \<times> store" where
  "delete_comment st request pid cid =
     (case req_user request of
        AnonymousUser \<Rightarrow> Inr (Redirect LoginRoute, st)
      | Authenticated u \<Rightarrow>
          (case get_object_or_404 (comments st)
                  (\<lambda>c. comment_id c = cid \<and> comment_post c = pid) of
             Inl e \<Rightarrow> Inl e
           | Inr comment \<Rightarrow>
               if comment_author comment \<noteq> user_id u
               then Inr (HttpResponseForbidden, st)
               else if req_method request = ''POST''
               then Inr (Redirect (PostDetailRoute pid), delete_comment_row st comment)
               else Inr (Render ''blog/comment.html''
                           (CommentContext comment (comment_post comment)), st)))"

section \<open>The posts a response lists\<close>

text \<open>The sequence that a listing view hands to the paginator; empty for any other response.\<close>

fun listed_posts :: "response \<Rightarrow> post list" where
  "listed_posts (Render t (IndexContext pg)) = object_list pg"
| "listed_posts (Render t (CategoryContext c pg)) = object_list pg"
| "listed_posts (Render t (ProfileContext usr pg)) = object_list pg"
| "listed_posts r = []"

section \<open>A small blog\<close>

text \<open>
  Three users, a published and an unpublished category, three posts of which one is a
  draft and one has no category, and three comments. The theorems below are run on it.
\<close>

definition travel :: category where
  "travel = \<lparr>category_id = 1, category_slug = ''travel'', category_title = ''Travel'',
             category_is_published = True\<rparr>"

definition archive :: category where
  "archive = \<lparr>category_id = 2, category_slug = ''archive'', category_title = ''Archive'',
              category_is_published = False\<rparr>"

definition alice :: user where
  "alice = \<lparr>user_id = 1, username = ''alice'', is_staff = False\<rparr>"

definition bob :: user where
  "bob = \<lparr>user_id = 2, username = ''bob'', is_staff = False\<rparr>"

definition moderator :: user where
  "moderator = \<lparr>user_id = 3, username = ''moderator'', is_staff = True\<rparr>"

definition public_post :: post where
  "public_post = \<lparr>post_id = 1, post_author = 1, post_category = Some travel,
     post_location = None, post_title = ''Lisbon'', post_text = ''Trams'',
     post_image = None, post_pub_date = 10, post_is_published = True\<rparr>"

definition draft_post :: post where
  "draft_post = \<lparr>post_id = 2, post_author = 1, post_category = Some travel,
     post_location = None, post_title = ''Porto'', post_text = ''Notes'',
     post_image = None, post_pub_date = 20, post_is_published = False\<rparr>"

definition plain_post :: post where
  "plain_post = \<lparr>post_id = 3, post_author = 2, post_category = None,
     post_location = None, post_title = ''Hello'', post_text = ''First'',
     post_image = None, post_pub_date = 5, post_is_published = True\<rparr>"

definition first_comment :: comment where
  "first_comment = \<lparr>comment_id = 1, comment_post = 1, comment_author = 2,
     comment_text = ''Nice'', comment_created_at = 11, comment_is_published = True\<rparr>"

definition second_comment :: comment where
  "second_comment = \<lparr>comment_id = 2, comment_post = 1, comment_author = 1,
     comment_text = ''Thanks'', comment_created_at = 12, comment_is_published = False\<rparr>"

definition third_comment :: comment where
  "third_comment = \<lparr>comment_id = 3, comment_post = 3, comment_author = 1,
     comment_text = ''Welcome'', comment_created_at = 13, comment_is_published = True\<rparr>"

definition blog :: store where
  "blog = \<lparr>users = [alice, bob, moderator], categories = [travel, archive],
           posts = [public_post, draft_post, plain_post],
           comments = [first_comment, second_comment, third_comment],
           post_seq = 3\<rparr>"

definition request_of :: "string \<Rightarrow> viewer \<Rightarrow> request" where
  "request_of m v = \<lparr>req_method = m, req_user = v, req_page = None\<rparr>"

definition sample_form :: post_form where
  "sample_form = \<lparr>form_category = Some travel, form_location = None,
     form_title = ''Faro'', form_text = ''Beach'', form_image = None,
     form_pub_date = None, form_is_published = False\<rparr>"

text \<open>Deleting a post deletes its comments: the \<^verbatim>\<open>CASCADE\<close> rule, used in the runs below.\<close>

definition cascade :: "nat \<Rightarrow> comment list \<Rightarrow> comment list" where
  "cascade k cs = filter (\<lambda>c. comment_post c \<noteq> k) cs"

section \<open>Basic facts\<close>

lemmas sample_defs = travel_def archive_def alice_def bob_def moderator_def public_post_def
  draft_post_def plain_post_def first_comment_def second_comment_def third_comment_def
  blog_def request_of_def sample_form_def

lemma get_object_or_404_Inr:
  "get_object_or_404 rows kwargs = Inr x \<Longrightarrow> filter kwargs rows = [x]"
  by (auto simp: get_object_or_404_def split: list.splits)

lemma get_object_or_404_sat:
  "get_object_or_404 rows kwargs = Inr x \<Longrightarrow> kwargs x \<and> x \<in> set rows"
proof -
  assume "get_object_or_404 rows kwargs = Inr x"
  then have "filter kwargs rows = [x]" by (rule get_object_or_404_Inr)
  then have "x \<in> set (filter kwargs rows)" by simp
  then show ?thesis by simp
qed

lemma get_object_or_404_Http404:
  "get_object_or_404 rows kwargs = Inl Http404 \<longleftrightarrow> filter kwargs rows = []"
  by (auto simp: get_object_or_404_def split: list.splits)

lemma visible_loop_filter:
  "visible_loop u now candidates visible =
     visible @ filter (\<lambda>p. can_view_post p u now) candidates"
  by (induction candidates arbitrary: visible) auto

lemma can_view_post_can_view: "can_view_post p u now = can_view p u now"
  by (simp add: can_view_def can_view_post_def)

lemma fold_max_ge: "a \<le> fold max ids (a::nat)"
  by (induction ids arbitrary: a) (auto intro: order_trans[OF max.cobounded2])

lemma fold_max_mem: "x \<in> set ids \<Longrightarrow> x \<le> fold max ids (a::nat)"
proof (induction ids arbitrary: a)
  case Nil then show ?case by simp
next
  case (Cons y ys)
  show ?case
  proof (cases "x = y")
    case True
    have "y \<le> max y a" by simp
    also have "\<dots> \<le> fold max ys (max y a)" by (rule fold_max_ge)
    finally show ?thesis using True by simp
  next
    case False
    with Cons.prems have "x \<in> set ys" by simp
    then show ?thesis using Cons.IH by simp
  qed
qed

lemma fresh_id_new: "x \<in> set ids \<Longrightarrow> x \<noteq> fresh_id seq ids"
  using fold_max_mem[of x ids seq] by (auto simp: fresh_id_def)

lemma fresh_id_after: "seq < fresh_id seq ids"
  using fold_max_ge[of seq ids] by (simp add: fresh_id_def)

lemma listed_index:
  "listed_posts (index st request now) =
     filter_posts (\<lambda>p. post_is_published p \<and>
       (case post_category p of None \<Rightarrow> False | Some c \<Rightarrow> category_is_published c) \<and>
       post_pub_date p \<le> now) st"
  by (simp add: index_def paginated_view_def)

lemma set_filter_posts: "set (filter_posts k st) = {p \<in> set (posts st). k p}"
  by (simp add: filter_posts_def)

section \<open>The visibility decision\<close>

text \<open>
  Claim C1. For every post, viewer and time, the decision of \<^verbatim>\<open>post_detail\<close> is true
  exactly when the viewer is authenticated and is the post's author, or the viewer is
  authenticated and staff, or the post is published, its \<^verbatim>\<open>pub_date\<close> is not after
  \<open>now\<close> and its category is absent or published. An author or a staff viewer
  therefore sees the post whatever its publication flag, date and category are.
\<close>

theorem can_view_iff:
  "can_view post u now \<longleftrightarrow>
     (\<exists>usr. u = Authenticated usr \<and> user_id usr = post_author post) \<or>
     (\<exists>usr. u = Authenticated usr \<and> is_staff usr) \<or>
     (post_is_published post \<and> post_pub_date post \<le> now \<and>
        (post_category post = None \<or>
         (\<exists>c. post_category post = Some c \<and> category_is_published c)))"
  by (cases u; cases "post_category post") (auto simp: can_view_def)

theorem can_view_iff_witness:
  "can_view draft_post (Authenticated alice) 50 \<and> can_view draft_post (Authenticated moderator) 50 \<and>
   \<not> can_view draft_post (Authenticated bob) 50 \<and> \<not> can_view draft_post AnonymousUser 50 \<and>
   can_view plain_post AnonymousUser 50 \<and> \<not> can_view plain_post AnonymousUser 4"
  using can_view_iff[of draft_post "Authenticated alice" 50]
    can_view_iff[of draft_post "Authenticated moderator" 50]
    can_view_iff[of draft_post "Authenticated bob" 50]
    can_view_iff[of draft_post AnonymousUser 50]
    can_view_iff[of plain_post AnonymousUser 50]
    can_view_iff[of plain_post AnonymousUser 4]
  by (simp add: sample_defs)

section \<open>The feeds\<close>

text \<open>
  Claim C2, amended. For every viewer and time: every post on the home page is a stored
  post that passes the visibility decision, for every viewer, and every stored post
  that has a category and that an anonymous visitor may view is on the home page. When
  the category page resolves, every post on it is a stored post of the resolved category
  that passes the visibility decision for the requesting viewer, and every stored post
  of that category that an anonymous visitor may view is on it, the two readings of the
  clock being in order. When the profile page resolves, every post on it is a stored
  post of the profile's user, and every stored post of that user that passes the
  visibility decision for the requesting viewer is on it.
\<close>

theorem feed_membership:
  "(p \<in> set (listed_posts (index st request now)) \<longrightarrow>
      p \<in> set (posts st) \<and> can_view p v now) \<and>
   (p \<in> set (posts st) \<and> post_category p \<noteq> None \<and> can_view p AnonymousUser now \<longrightarrow>
      p \<in> set (listed_posts (index st request now))) \<and>
   (category_posts st request slug now now2 = Inr r \<longrightarrow>
      (\<exists>cat. get_object_or_404 (categories st)
                (\<lambda>c. category_slug c = slug \<and> category_is_published c) = Inr cat \<and>
         (p \<in> set (listed_posts r) \<longrightarrow>
            p \<in> set (posts st) \<and>
            map_option category_id (post_category p) = Some (category_id cat) \<and>
            can_view p (req_user request) now) \<and>
         (p \<in> set (posts st) \<and>
            map_option category_id (post_category p) = Some (category_id cat) \<and>
            can_view p AnonymousUser now \<and> now \<le> now2 \<longrightarrow>
            p \<in> set (listed_posts r)))) \<and>
   (profile_view st request name = Inr r' \<longrightarrow>
      (\<exists>usr. get_object_or_404 (users st) (\<lambda>u. username u = name) = Inr usr \<and>
         (p \<in> set (listed_posts r') \<longrightarrow>
            p \<in> set (posts st) \<and> post_author p = user_id usr) \<and>
         (p \<in> set (posts st) \<and> post_author p = user_id usr \<and>
            can_view p (req_user request) now \<longrightarrow>
            p \<in> set (listed_posts r'))))"
proof (intro conjI impI)
  assume "p \<in> set (listed_posts (index st request now))"
  then show "p \<in> set (posts st)" and "can_view p v now"
    by (auto simp: listed_index set_filter_posts can_view_def split: option.splits)
next
  assume "p \<in> set (posts st) \<and> post_category p \<noteq> None \<and> can_view p AnonymousUser now"
  then show "p \<in> set (listed_posts (index st request now))"
    by (auto simp: listed_index set_filter_posts can_view_def split: if_splits)
next
  assume h: "category_posts st request slug now now2 = Inr r"
  then obtain cat where
    g: "get_object_or_404 (categories st)
          (\<lambda>c. category_slug c = slug \<and> category_is_published c) = Inr cat"
    by (auto simp: category_posts_def split: sum.splits)
  from h g have l: "listed_posts r =
      filter (\<lambda>p. can_view p (req_user request) now)
        (filter_posts (\<lambda>p. post_is_published p \<and> post_pub_date p \<le> now2 \<and>
           map_option category_id (post_category p) = Some (category_id cat)) st)"
    by (auto simp: category_posts_def Let_def paginated_view_def visible_loop_filter
        can_view_post_can_view)
  have a: "p \<in> set (listed_posts r) \<longrightarrow>
            p \<in> set (posts st) \<and>
            map_option category_id (post_category p) = Some (category_id cat) \<and>
            can_view p (req_user request) now"
    by (auto simp: l set_filter_posts)
  have b: "p \<in> set (posts st) \<and>
            map_option category_id (post_category p) = Some (category_id cat) \<and>
            can_view p AnonymousUser now \<and> now \<le> now2 \<longrightarrow>
            p \<in> set (listed_posts r)"
    by (auto simp: l set_filter_posts can_view_def split: if_splits)
  from g a b show "\<exists>cat. get_object_or_404 (categories st)
                (\<lambda>c. category_slug c = slug \<and> category_is_published c) = Inr cat \<and>
         (p \<in> set (listed_posts r) \<longrightarrow>
            p \<in> set (posts st) \<and>
            map_option category_id (post_category p) = Some (category_id cat) \<and>
            can_view p (req_user request) now) \<and>
         (p \<in> set (posts st) \<and>
            map_option category_id (post_category p) = Some (category_id cat) \<and>
            can_view p AnonymousUser now \<and> now \<le> now2 \<longrightarrow>
            p \<in> set (listed_posts r))"
    by blast
next
  assume h: "profile_view st request name = Inr r'"
  then obtain usr where
    g: "get_object_or_404 (users st) (\<lambda>u. username u = name) = Inr usr"
    by (auto simp: profile_view_def split: sum.splits)
  from h g have l: "listed_posts r' = filter (\<lambda>p. post_author p = user_id usr) (posts st)"
    by (auto simp: profile_view_def Let_def paginated_view_def)
  from g l show "\<exists>usr. get_object_or_404 (users st) (\<lambda>u. username u = name) = Inr usr \<and>
         (p \<in> set (listed_posts r') \<longrightarrow>
            p \<in> set (posts st) \<and> post_author p = user_id usr) \<and>
         (p \<in> set (posts st) \<and> post_author p = user_id usr \<and>
            can_view p (req_user request) now \<longrightarrow>
            p \<in> set (listed_posts r'))"
    by auto
qed

theorem feed_membership_witness:
  "public_post \<in> set (listed_posts (index blog (request_of ''GET'' AnonymousUser) 50)) \<and>
   category_posts blog (request_of ''GET'' AnonymousUser) ''travel'' 50 50 =
     Inr (Render ''blog/category.html'' (CategoryContext travel
       \<lparr>object_list = [public_post], per_page = 10, page_number = None\<rparr>)) \<and>
   get_object_or_404 (categories blog)
     (\<lambda>c. category_slug c = ''travel'' \<and> category_is_published c) = Inr travel \<and>
   profile_view blog (request_of ''GET'' AnonymousUser) ''alice'' =
     Inr (Render ''blog/profile.html'' (ProfileContext alice
       \<lparr>object_list = [public_post, draft_post], per_page = 10, page_number = None\<rparr>)) \<and>
   get_object_or_404 (users blog) (\<lambda>u. username u = ''alice'') = Inr alice \<and>
   can_view public_post AnonymousUser 50"
proof -
  have t: "get_object_or_404 (categories blog)
     (\<lambda>c. category_slug c = ''travel'' \<and> category_is_published c) = Inr travel"
    by (simp add: get_object_or_404_def blog_def travel_def archive_def)
  have w: "get_object_or_404 (users blog) (\<lambda>u. username u = ''alice'') = Inr alice"
    by (simp add: get_object_or_404_def blog_def alice_def bob_def moderator_def)
  have c: "category_posts blog (request_of ''GET'' AnonymousUser) ''travel'' 50 50 =
     Inr (Render ''blog/category.html'' (CategoryContext travel
       \<lparr>object_list = [public_post], per_page = 10, page_number = None\<rparr>))"
    by (simp add: category_posts_def get_object_or_404_def filter_posts_def paginated_view_def
        PAGE_def can_view_post_def sample_defs)
  have f: "profile_view blog (request_of ''GET'' AnonymousUser) ''alice'' =
     Inr (Render ''blog/profile.html'' (ProfileContext alice
       \<lparr>object_list = [public_post, draft_post], per_page = 10, page_number = None\<rparr>))"
    by (simp add: profile_view_def get_object_or_404_def paginated_view_def PAGE_def sample_defs)
  have m: "public_post \<in> set (posts blog)" "post_category public_post \<noteq> None"
    "can_view public_post AnonymousUser 50"
    by (simp_all add: can_view_def blog_def public_post_def travel_def)
  from feed_membership[of public_post blog "request_of ''GET'' AnonymousUser" 50 AnonymousUser
      "''travel''" 50
      "Render ''blog/category.html'' (CategoryContext travel
         \<lparr>object_list = [public_post], per_page = 10, page_number = None\<rparr>)"
      "''alice''"
      "Render ''blog/profile.html'' (ProfileContext alice
         \<lparr>object_list = [public_post, draft_post], per_page = 10, page_number = None\<rparr>)"]
    c f m t w
  show ?thesis by simp
qed

text \<open>
  On the small blog the claim as stated fails in each of the three feeds. Alice may
  view her own draft, a stored post of the category \<open>travel\<close>, yet neither the home
  page nor the category page she requests lists it. The anonymous visitor may view Bob's
  post, which has no category, yet the home page does not list it. The anonymous visitor
  may not view the draft, yet Alice's profile page lists it for the visitor.
\<close>

theorem listings_differ_from_can_view:
  "draft_post \<in> set (posts blog) \<and> can_view draft_post (Authenticated alice) 50 \<and>
   draft_post \<notin> set (listed_posts (index blog (request_of ''GET'' (Authenticated alice)) 50)) \<and>
   post_category draft_post = Some travel \<and>
   category_posts blog (request_of ''GET'' (Authenticated alice)) ''travel'' 50 50 =
     Inr (Render ''blog/category.html'' (CategoryContext travel
       \<lparr>object_list = [public_post], per_page = 10, page_number = None\<rparr>)) \<and>
   draft_post \<noteq> public_post \<and>
   plain_post \<in> set (posts blog) \<and> post_category plain_post = None \<and>
   can_view plain_post AnonymousUser 50 \<and>
   plain_post \<notin> set (listed_posts (index blog (request_of ''GET'' AnonymousUser) 50)) \<and>
   \<not> can_view draft_post AnonymousUser 50 \<and>
   profile_view blog (request_of ''GET'' AnonymousUser) ''alice'' =
     Inr (Render ''blog/profile.html'' (ProfileContext alice
       \<lparr>object_list = [public_post, draft_post], per_page = 10, page_number = None\<rparr>))"
proof -
  have "index blog (request_of ''GET'' (Authenticated alice)) 50 =
     Render ''blog/index.html'' (IndexContext
       \<lparr>object_list = [public_post], per_page = 10, page_number = None\<rparr>)"
    by (simp add: index_def filter_posts_def paginated_view_def PAGE_def sample_defs)
  moreover have "index blog (request_of ''GET'' AnonymousUser) 50 =
     Render ''blog/index.html'' (IndexContext
       \<lparr>object_list = [public_post], per_page = 10, page_number = None\<rparr>)"
    by (simp add: index_def filter_posts_def paginated_view_def PAGE_def sample_defs)
  moreover have "draft_post \<noteq> public_post" "plain_post \<noteq> public_post"
    by (simp_all add: sample_defs)
  moreover have "category_posts blog (request_of ''GET'' (Authenticated alice)) ''travel'' 50 50 =
     Inr (Render ''blog/category.html'' (CategoryContext travel
       \<lparr>object_list = [public_post], per_page = 10, page_number = None\<rparr>))"
    by (simp add: category_posts_def get_object_or_404_def filter_posts_def paginated_view_def
        PAGE_def can_view_post_def sample_defs)
  moreover have "profile_view blog (request_of ''GET'' AnonymousUser) ''alice'' =
     Inr (Render ''blog/profile.html'' (ProfileContext alice
       \<lparr>object_list = [public_post, draft_post], per_page = 10, page_number = None\<rparr>))"
    by (simp add: profile_view_def get_object_or_404_def paginated_view_def PAGE_def sample_defs)
  moreover have "can_view draft_post (Authenticated alice) 50" "\<not> can_view draft_post AnonymousUser 50"
    "can_view plain_post AnonymousUser 50"
    by (simp_all add: can_view_def sample_defs)
  moreover have "draft_post \<in> set (posts blog)" "post_category draft_post = Some travel"
    "plain_post \<in> set (posts blog)" "post_category plain_post = None"
    by (simp_all add: blog_def draft_post_def plain_post_def)
  ultimately show ?thesis by simp
qed

section \<open>The two copies of the check\<close>

text \<open>
  Claim C3. The check of the single-post view and the check inside the loop of the
  category listing are the same function of post, viewer and time.
\<close>

theorem can_view_post_eq: "can_view_post = can_view"
  by (simp add: fun_eq_iff can_view_def can_view_post_def)

theorem can_view_post_eq_witness:
  "can_view_post draft_post (Authenticated alice) 50 = can_view draft_post (Authenticated alice) 50"
  using can_view_post_eq by simp

section \<open>The gate of the category page\<close>

text \<open>
  Claim C4. The category page answers not-found exactly when no category with the
  requested slug is published, that is when the slug is unknown or its category is
  unpublished; when the page resolves, a published category with that slug exists. The
  outcome of the gate, an error or a page, does not depend on the post table, so the
  category check made for each post has no part in it.
\<close>

theorem category_page_gate:
  "(category_posts st request slug now now2 = Inl Http404 \<longleftrightarrow>
      (\<forall>c \<in> set (categories st). category_slug c = slug \<longrightarrow> \<not> category_is_published c)) \<and>
   ((\<exists>r. category_posts st request slug now now2 = Inr r) \<longrightarrow>
      (\<exists>c \<in> set (categories st). category_slug c = slug \<and> category_is_published c)) \<and>
   map_sum id (\<lambda>r. ()) (category_posts (st\<lparr>posts := ps\<rparr>) request slug now now2) =
     map_sum id (\<lambda>r. ()) (category_posts st request slug now now2)"
proof (intro conjI)
  let ?k = "\<lambda>c. category_slug c = slug \<and> category_is_published c"
  have "category_posts st request slug now now2 = Inl Http404 \<longleftrightarrow>
          get_object_or_404 (categories st) ?k = Inl Http404"
    by (simp add: category_posts_def Let_def split: sum.splits)
  also have "\<dots> \<longleftrightarrow> filter ?k (categories st) = []"
    by (rule get_object_or_404_Http404)
  also have "\<dots> \<longleftrightarrow> (\<forall>c \<in> set (categories st). category_slug c = slug \<longrightarrow> \<not> category_is_published c)"
    by (auto simp: filter_empty_conv)
  finally show "category_posts st request slug now now2 = Inl Http404 \<longleftrightarrow>
      (\<forall>c \<in> set (categories st). category_slug c = slug \<longrightarrow> \<not> category_is_published c)" .
next
  show "(\<exists>r. category_posts st request slug now now2 = Inr r) \<longrightarrow>
      (\<exists>c \<in> set (categories st). category_slug c = slug \<and> category_is_published c)"
    by (auto simp: category_posts_def Let_def split: sum.splits dest: get_object_or_404_sat)
next
  show "map_sum id (\<lambda>r. ()) (category_posts (st\<lparr>posts := ps\<rparr>) request slug now now2) =
     map_sum id (\<lambda>r. ()) (category_posts st request slug now now2)"
    by (simp add: category_posts_def Let_def split: sum.splits)
qed

theorem category_page_gate_witness:
  "category_posts blog (request_of ''GET'' AnonymousUser) ''archive'' 50 50 = Inl Http404 \<and>
   category_posts blog (request_of ''GET'' AnonymousUser) ''nowhere'' 50 50 = Inl Http404 \<and>
   map_sum id (\<lambda>r. ()) (category_posts (blog\<lparr>posts := []\<rparr>) (request_of ''GET'' AnonymousUser)
      ''travel'' 50 50) = Inr ()"
proof -
  have a: "category_posts blog (request_of ''GET'' AnonymousUser) ''archive'' 50 50 = Inl Http404"
    using category_page_gate[of blog "request_of ''GET'' AnonymousUser" "''archive''" 50 50 "[]"]
    by (simp add: sample_defs)
  have b: "category_posts blog (request_of ''GET'' AnonymousUser) ''nowhere'' 50 50 = Inl Http404"
    using category_page_gate[of blog "request_of ''GET'' AnonymousUser" "''nowhere''" 50 50 "[]"]
    by (simp add: sample_defs)
  have c: "category_posts blog (request_of ''GET'' AnonymousUser) ''travel'' 50 50 =
     Inr (Render ''blog/category.html'' (CategoryContext travel
       \<lparr>object_list = [public_post], per_page = 10, page_number = None\<rparr>))"
    by (simp add: category_posts_def get_object_or_404_def filter_posts_def paginated_view_def
        PAGE_def can_view_post_def sample_defs)
  from category_page_gate[of blog "request_of ''GET'' AnonymousUser" "''travel''" 50 50 "[]"] c
  have "map_sum id (\<lambda>r. ()) (category_posts (blog\<lparr>posts := []\<rparr>) (request_of ''GET'' AnonymousUser)
      ''travel'' 50 50) = Inr ()" by simp
  with a b show ?thesis by simp
qed

section \<open>Order of the filtered posts\<close>

text \<open>
  Claim C5. For every sequence of candidate posts, the posts that the loop of the
  category listing keeps form a subsequence of the candidates: they keep their relative
  order.
\<close>

theorem visible_loop_subseq: "subseq (visible_loop u now candidates []) candidates"
  by (simp add: visible_loop_filter)

theorem visible_loop_subseq_witness:
  "visible_loop AnonymousUser 50 [public_post, draft_post, plain_post] [] =
     [public_post, plain_post] \<and>
   subseq [public_post, plain_post] [public_post, draft_post, plain_post]"
proof -
  have v: "visible_loop AnonymousUser 50 [public_post, draft_post, plain_post] [] =
     [public_post, plain_post]"
    by (simp add: can_view_post_def sample_defs)
  from visible_loop_subseq[of AnonymousUser 50 "[public_post, draft_post, plain_post]"] v
  show ?thesis by simp
qed

section \<open>Requests of a user who is not the author\<close>

text \<open>
  Claim C6. When an authenticated user who is not the author asks to edit or delete a
  post, the answer is a redirect to the post's page; when such a user asks to edit or
  delete a comment, the answer is a forbidden response. In all four cases the store is
  left as it was, for every request method and every form. The statement holds for
  every post and comment, visible to the user or not.
\<close>

theorem not_author_refused:
  assumes "req_user request = Authenticated u"
  shows "(get_object_or_404 (posts st) (\<lambda>p. post_id p = pid) = Inr post \<and>
            post_author post \<noteq> user_id u \<longrightarrow>
          edit_post st request pid form = Inr (Redirect (PostDetailRoute pid), st) \<and>
          delete_post on_delete st request pid = Inr (Redirect (PostDetailRoute pid), st)) \<and>
         (get_object_or_404 (comments st) (\<lambda>c. comment_id c = cid \<and> comment_post c = pid) = Inr c \<and>
            comment_author c \<noteq> user_id u \<longrightarrow>
          edit_comment st request pid cid cform = Inr (HttpResponseForbidden, st) \<and>
          delete_comment st request pid cid = Inr (HttpResponseForbidden, st))"
proof (intro conjI impI)
  assume h: "get_object_or_404 (posts st) (\<lambda>p. post_id p = pid) = Inr post \<and>
            post_author post \<noteq> user_id u"
  then have k: "post_id post = pid"
    using get_object_or_404_sat[of "posts st" "\<lambda>p. post_id p = pid" post] by simp
  show "edit_post st request pid form = Inr (Redirect (PostDetailRoute pid), st)"
    using assms h k by (simp add: edit_post_def)
  show "delete_post on_delete st request pid = Inr (Redirect (PostDetailRoute pid), st)"
    using assms h k by (simp add: delete_post_def)
next
  assume h: "get_object_or_404 (comments st) (\<lambda>c. comment_id c = cid \<and> comment_post c = pid) = Inr c \<and>
            comment_author c \<noteq> user_id u"
  show "edit_comment st request pid cid cform = Inr (HttpResponseForbidden, st)"
    using assms h by (simp add: edit_comment_def)
  show "delete_comment st request pid cid = Inr (HttpResponseForbidden, st)"
    using assms h by (simp add: delete_comment_def)
qed

theorem not_author_refused_witness:
  "edit_post blog (request_of ''POST'' (Authenticated bob)) 1 (Some sample_form) =
     Inr (Redirect (PostDetailRoute 1), blog) \<and>
   delete_post cascade blog (request_of ''POST'' (Authenticated bob)) 1 =
     Inr (Redirect (PostDetailRoute 1), blog) \<and>
   edit_comment blog (request_of ''POST'' (Authenticated bob)) 1 2 (Some ''Mine'') =
     Inr (HttpResponseForbidden, blog) \<and>
   delete_comment blog (request_of ''POST'' (Authenticated bob)) 1 2 =
     Inr (HttpResponseForbidden, blog)"
proof -
  have u: "req_user (request_of ''POST'' (Authenticated bob)) = Authenticated bob"
    by (simp add: request_of_def)
  have g: "get_object_or_404 (posts blog) (\<lambda>p. post_id p = 1) = Inr public_post"
    by (simp add: get_object_or_404_def sample_defs)
  have a: "post_author public_post \<noteq> user_id bob"
    by (simp add: sample_defs)
  have h: "get_object_or_404 (comments blog) (\<lambda>c. comment_id c = 2 \<and> comment_post c = 1) =
             Inr second_comment"
    by (simp add: get_object_or_404_def sample_defs)
  have b: "comment_author second_comment \<noteq> user_id bob"
    by (simp add: sample_defs)
  from not_author_refused[OF u, of blog 1 public_post "Some sample_form" cascade 2 second_comment
      "Some ''Mine''"] g a h b
  show ?thesis by simp
qed

section \<open>Comments of a viewable post\<close>

text \<open>
  Claim C7. When the post exists and the viewer may view it, the single-post view shows
  all comment rows that refer to the post, in table order; no condition on a comment
  itself is applied.
\<close>

theorem post_detail_all_comments:
  assumes "get_object_or_404 (posts st) (\<lambda>p. post_id p = pid) = Inr post"
    and "can_view post (req_user request) now"
  shows "post_detail st request pid now =
           Inr (Render ''blog/detail.html''
                  (DetailContext post (filter (\<lambda>c. comment_post c = pid) (comments st)) now))"
proof -
  from assms(1) have "post_id post = pid"
    using get_object_or_404_sat[of "posts st" "\<lambda>p. post_id p = pid" post] by simp
  with assms show ?thesis by (simp add: post_detail_def)
qed

theorem post_detail_all_comments_witness:
  "post_detail blog (request_of ''GET'' AnonymousUser) 1 50 =
     Inr (Render ''blog/detail.html''
            (DetailContext public_post [first_comment, second_comment] 50)) \<and>
   \<not> comment_is_published second_comment"
proof -
  have g: "get_object_or_404 (posts blog) (\<lambda>p. post_id p = 1) = Inr public_post"
    by (simp add: get_object_or_404_def sample_defs)
  have v: "can_view public_post (req_user (request_of ''GET'' AnonymousUser)) 50"
    by (simp add: can_view_def sample_defs)
  have f: "filter (\<lambda>c. comment_post c = 1) (comments blog) = [first_comment, second_comment]"
    by (simp add: sample_defs)
  from post_detail_all_comments[OF g v] f show ?thesis
    by (simp add: second_comment_def)
qed

section \<open>Creating a post\<close>

text \<open>
  Claim C8. A valid form posted by an authenticated user adds one row with a new key to
  the post table. Its author is the requesting user, its publication flag is true
  whatever the form said, and its \<^verbatim>\<open>pub_date\<close> is the form's, or \<open>now\<close> when the form
  gave none.
\<close>

theorem create_post_fields:
  assumes "req_user request = Authenticated u" and "req_method request = ''POST''"
  shows "\<exists>p. create_post st request (Some f) now =
                Inr (Redirect (ProfileRoute (username u)),
                     st\<lparr>posts := posts st @ [p], post_seq := post_id p\<rparr>) \<and>
              post_author p = user_id u \<and> post_is_published p \<and>
              post_pub_date p = (case form_pub_date f of None \<Rightarrow> now | Some d \<Rightarrow> d) \<and>
              post_id p \<notin> post_id ` set (posts st) \<and> post_seq st < post_id p"
proof -
  let ?k = "fresh_id (post_seq st) (map post_id (posts st))"
  have fresh: "?k \<notin> post_id ` set (posts st)"
    using fresh_id_new[of _ "map post_id (posts st)" "post_seq st"] by auto
  have after: "post_seq st < ?k"
    by (rule fresh_id_after)
  let ?p = "\<lparr>post_id = ?k, post_author = user_id u, post_category = form_category f,
     post_location = form_location f, post_title = form_title f, post_text = form_text f,
     post_image = form_image f,
     post_pub_date = (case form_pub_date f of None \<Rightarrow> now | Some d \<Rightarrow> d),
     post_is_published = True\<rparr>"
  have "create_post st request (Some f) now =
          Inr (Redirect (ProfileRoute (username u)),
               st\<lparr>posts := posts st @ [?p], post_seq := post_id ?p\<rparr>)"
  proof (cases "form_pub_date f")
    case None
    with assms show ?thesis
      by (simp add: create_post_def new_instance_def save_post_def post_row_def Let_def)
  next
    case (Some d)
    with assms show ?thesis
      by (simp add: create_post_def new_instance_def save_post_def post_row_def Let_def)
  qed
  then show ?thesis using fresh after by (intro exI[of _ ?p]) simp
qed

theorem create_post_fields_witness:
  "create_post blog (request_of ''POST'' (Authenticated bob)) (Some sample_form) 50 =
     Inr (Redirect (ProfileRoute ''bob''),
          blog\<lparr>posts := posts blog @
            [\<lparr>post_id = 4, post_author = 2, post_category = Some travel, post_location = None,
              post_title = ''Faro'', post_text = ''Beach'', post_image = None,
              post_pub_date = 50, post_is_published = True\<rparr>],
            post_seq := 4\<rparr>) \<and>
   \<not> form_is_published sample_form \<and>
   (\<exists>p. create_post blog (request_of ''POST'' (Authenticated bob)) (Some sample_form) 50 =
          Inr (Redirect (ProfileRoute (username bob)),
               blog\<lparr>posts := posts blog @ [p], post_seq := post_id p\<rparr>) \<and>
        post_author p = user_id bob \<and> post_is_published p \<and> post_pub_date p = 50)"
proof -
  have u: "req_user (request_of ''POST'' (Authenticated bob)) = Authenticated bob"
    and m: "req_method (request_of ''POST'' (Authenticated bob)) = ''POST''"
    by (simp_all add: request_of_def)
  have e: "create_post blog (request_of ''POST'' (Authenticated bob)) (Some sample_form) 50 =
     Inr (Redirect (ProfileRoute ''bob''),
          blog\<lparr>posts := posts blog @
            [\<lparr>post_id = 4, post_author = 2, post_category = Some travel, post_location = None,
              post_title = ''Faro'', post_text = ''Beach'', post_image = None,
              post_pub_date = 50, post_is_published = True\<rparr>],
            post_seq := 4\<rparr>)"
    by (simp add: create_post_def new_instance_def save_post_def post_row_def fresh_id_def
        Let_def request_of_def bob_def sample_form_def blog_def public_post_def draft_post_def
        plain_post_def)
  have n: "form_pub_date sample_form = None" and q: "\<not> form_is_published sample_form"
    by (simp_all add: sample_form_def)
  from create_post_fields[OF u m, of blog sample_form 50] n
  have "\<exists>p. create_post blog (request_of ''POST'' (Authenticated bob)) (Some sample_form) 50 =
          Inr (Redirect (ProfileRoute (username bob)),
               blog\<lparr>posts := posts blog @ [p], post_seq := post_id p\<rparr>) \<and>
        post_author p = user_id bob \<and> post_is_published p \<and> post_pub_date p = 50"
    by auto
  with e q show ?thesis by blast
qed

text \<open>
  A key is not handed out twice: after Bob's post, the last row with key 3, is deleted,
  the next post is stored under key 4.
\<close>

lemma create_after_delete_key:
  "delete_post cascade blog (request_of ''POST'' (Authenticated bob)) 3 =
     Inr (Redirect (ProfileRoute ''bob''),
          blog\<lparr>posts := [public_post, draft_post],
               comments := [first_comment, second_comment]\<rparr>) \<and>
   create_post (blog\<lparr>posts := [public_post, draft_post],
                     comments := [first_comment, second_comment]\<rparr>)
       (request_of ''POST'' (Authenticated bob)) (Some sample_form) 50 =
     Inr (Redirect (ProfileRoute ''bob''),
          blog\<lparr>posts := [public_post, draft_post,
            \<lparr>post_id = 4, post_author = 2, post_category = Some travel, post_location = None,
              post_title = ''Faro'', post_text = ''Beach'', post_image = None,
              post_pub_date = 50, post_is_published = True\<rparr>],
            comments := [first_comment, second_comment], post_seq := 4\<rparr>)"
  by (simp add: delete_post_def delete_post_row_def cascade_def get_object_or_404_def
      create_post_def new_instance_def save_post_def post_row_def fresh_id_def Let_def
      sample_defs)

section \<open>Editing a comment\<close>

text \<open>
  Claim C9. When the author of a comment posts a valid form, the rows of the comment's
  key are replaced by the comment with the text of the form and the publication flag
  true, whatever the flag was before; its post, author, key and creation time are those
  it had.
\<close>

theorem edit_comment_publishes:
  assumes "req_user request = Authenticated u" and "req_method request = ''POST''"
    and "get_object_or_404 (comments st) (\<lambda>c. comment_id c = cid \<and> comment_post c = pid) = Inr c"
    and "comment_author c = user_id u"
  shows "\<exists>c'. edit_comment st request pid cid (Some t) =
                 Inr (Redirect (PostDetailRoute pid),
                      st\<lparr>comments := map (\<lambda>x. if comment_id x = cid then c' else x) (comments st)\<rparr>) \<and>
               comment_is_published c' \<and> comment_text c' = t \<and>
               comment_post c' = comment_post c \<and> comment_author c' = comment_author c \<and>
               comment_id c' = cid \<and> comment_created_at c' = comment_created_at c"
proof -
  from assms(3) have k: "comment_id c = cid" and m: "c \<in> set (comments st)"
    using get_object_or_404_sat[of "comments st" "\<lambda>c. comment_id c = cid \<and> comment_post c = pid" c]
    by simp_all
  from k m have ex: "list_ex (\<lambda>x. comment_id x = cid) (comments st)"
    by (auto simp: list_ex_iff)
  let ?c = "c\<lparr>comment_text := t, comment_is_published := True\<rparr>"
  have "edit_comment st request pid cid (Some t) =
          Inr (Redirect (PostDetailRoute pid),
               st\<lparr>comments := map (\<lambda>x. if comment_id x = cid then ?c else x) (comments st)\<rparr>)"
    using assms k ex by (simp add: edit_comment_def save_comment_def Let_def)
  then show ?thesis using k by (intro exI[of _ ?c]) simp
qed

theorem edit_comment_publishes_witness:
  "edit_comment blog (request_of ''POST'' (Authenticated alice)) 1 2 (Some ''Edited'') =
     Inr (Redirect (PostDetailRoute 1),
          blog\<lparr>comments := [first_comment,
             second_comment\<lparr>comment_text := ''Edited'', comment_is_published := True\<rparr>,
             third_comment]\<rparr>) \<and>
   \<not> comment_is_published second_comment"
proof -
  have u: "req_user (request_of ''POST'' (Authenticated alice)) = Authenticated alice"
    and m: "req_method (request_of ''POST'' (Authenticated alice)) = ''POST''"
    by (simp_all add: request_of_def)
  have h: "get_object_or_404 (comments blog) (\<lambda>c. comment_id c = 2 \<and> comment_post c = 1) =
             Inr second_comment"
    by (simp add: get_object_or_404_def sample_defs)
  have b: "comment_author second_comment = user_id alice"
    by (simp add: sample_defs)
  from edit_comment_publishes[OF u m h b, of "''Edited''"]
  obtain c' where
    e: "edit_comment blog (request_of ''POST'' (Authenticated alice)) 1 2 (Some ''Edited'') =
          Inr (Redirect (PostDetailRoute 1),
               blog\<lparr>comments := map (\<lambda>x. if comment_id x = 2 then c' else x) (comments blog)\<rparr>)"
    and f: "comment_is_published c'" "comment_text c' = ''Edited''"
      "comment_post c' = comment_post second_comment"
      "comment_author c' = comment_author second_comment" "comment_id c' = 2"
      "comment_created_at c' = comment_created_at second_comment"
    by blast
  from f have "c' = second_comment\<lparr>comment_text := ''Edited'', comment_is_published := True\<rparr>"
    by (simp add: second_comment_def)
  with e show ?thesis
    by (simp add: blog_def first_comment_def second_comment_def third_comment_def)
qed

section \<open>Deleting needs a POST request\<close>

text \<open>
  Claim C10. On a request whose method is not \<^verbatim>\<open>POST\<close>, the views that delete a post or
  a comment leave the store as it was whenever they answer; for the author of the
  record the answer is the confirmation page.
\<close>

theorem delete_only_on_post:
  assumes "req_method request \<noteq> ''POST''"
  shows "(\<forall>r st'. delete_post on_delete st request pid = Inr (r, st') \<longrightarrow> st' = st) \<and>
         (\<forall>r st'. delete_comment st request pid cid = Inr (r, st') \<longrightarrow> st' = st) \<and>
         (req_user request = Authenticated u \<and>
          get_object_or_404 (posts st) (\<lambda>p. post_id p = pid) = Inr post \<and>
          post_author post = user_id u \<longrightarrow>
            delete_post on_delete st request pid =
              Inr (Render ''blog/create.html'' (PostContext post), st)) \<and>
         (req_user request = Authenticated u \<and>
          get_object_or_404 (comments st) (\<lambda>c. comment_id c = cid \<and> comment_post c = pid) = Inr c \<and>
          comment_author c = user_id u \<longrightarrow>
            delete_comment st request pid cid =
              Inr (Render ''blog/comment.html'' (CommentContext c (comment_post c)), st))"
  using assms
  by (auto simp: delete_post_def delete_comment_def split: viewer.splits sum.splits if_splits)

theorem delete_only_on_post_witness:
  "delete_post cascade blog (request_of ''GET'' (Authenticated alice)) 1 =
     Inr (Render ''blog/create.html'' (PostContext public_post), blog) \<and>
   delete_comment blog (request_of ''GET'' (Authenticated alice)) 1 2 =
     Inr (Render ''blog/comment.html'' (CommentContext second_comment 1), blog)"
proof -
  have u: "req_user (request_of ''GET'' (Authenticated alice)) = Authenticated alice"
    and m: "req_method (request_of ''GET'' (Authenticated alice)) \<noteq> ''POST''"
    by (simp_all add: request_of_def)
  have g: "get_object_or_404 (posts blog) (\<lambda>p. post_id p = 1) = Inr public_post"
    by (simp add: get_object_or_404_def sample_defs)
  have a: "post_author public_post = user_id alice"
    by (simp add: sample_defs)
  have h: "get_object_or_404 (comments blog) (\<lambda>c. comment_id c = 2 \<and> comment_post c = 1) =
             Inr second_comment"
    by (simp add: get_object_or_404_def sample_defs)
  have b: "comment_author second_comment = user_id alice" "comment_post second_comment = 1"
    by (simp_all add: sample_defs)
  from delete_only_on_post[OF m, of cascade blog 1 2 alice public_post second_comment] u g a h b
  show ?thesis by simp
qed

end
